theory Spec2Isabelle
  imports Complex_Main
begin

section \<open>The health server of worker-ollama-custom\<close>

text \<open>
  A shallow embedding of \<^verbatim>\<open>src/health_server.py\<close>: the module-level configuration
  (lines 12 to 32), the handler \<^verbatim>\<open>health_check\<close> of the route \<^verbatim>\<open>GET /ping\<close>
  (lines 44 to 66) and the \<^verbatim>\<open>__main__\<close> block (lines 68 to 76).

  Everything the module does to its surroundings is explicit. The process environment is a
  map from names to strings. The logger and the HTTP client are parameters (a \<open>world\<close>):
  each call either returns or raises, and a handler returns the list of calls it made
  together with either its value or the exception that leaves it.
\<close>

subsection \<open>Python strings and integers\<close>

text \<open>
  A Python string is a list of code points; the model has the code points below 256.
  \<^verbatim>\<open>str(n)\<close> of an integer is its decimal numeral, with a minus sign when negative.
\<close>

definition digit_char :: "nat \<Rightarrow> char" where
  "digit_char d = ''0123456789'' ! d"

function digits_nat :: "nat \<Rightarrow> string" where
  "digits_nat n = (if n < 10 then [digit_char n] else digits_nat (n div 10) @ [digit_char (n mod 10)])"
  by pat_completeness auto
termination
  by (relation "measure id") auto

declare digits_nat.simps [simp del]

definition py_str :: "int \<Rightarrow> string" where
  "py_str i = (if i < 0 then CHR ''-'' # digits_nat (nat (- i)) else digits_nat (nat i))"

text \<open>
  \<^verbatim>\<open>int(s)\<close> of a string, base 10: white space around the text is dropped, then comes an
  optional sign, then at least one decimal digit, with single underscores allowed between
  digits. Anything else raises \<^verbatim>\<open>ValueError\<close>, which is \<open>None\<close> here.

  White space is what \<^verbatim>\<open>int\<close> drops: the ASCII white space of C (code points 9 to 13
  and 32) and, beyond ASCII, the white space of Unicode, which below code point 256 is 133
  and 160. The separators 28 to 31, white space for \<^verbatim>\<open>str.isspace\<close>, are not dropped:
  \<^verbatim>\<open>int('\x1c80')\<close> raises \<^verbatim>\<open>ValueError\<close>.
\<close>

definition is_space :: "char \<Rightarrow> bool" where
  "is_space c = ((of_char c :: nat) \<in> {9, 10, 11, 12, 13, 32, 133, 160})"

definition is_digit :: "char \<Rightarrow> bool" where
  "is_digit c = (48 \<le> (of_char c :: nat) \<and> (of_char c :: nat) \<le> 57)"

definition digit_val :: "char \<Rightarrow> nat" where
  "digit_val c = of_char c - 48"

definition strip :: "string \<Rightarrow> string" where
  "strip s = rev (dropWhile is_space (rev (dropWhile is_space s)))"

fun parse_digits :: "nat \<Rightarrow> string \<Rightarrow> nat option" where
  "parse_digits acc [] = Some acc"
| "parse_digits acc [c] = (if is_digit c then Some (10 * acc + digit_val c) else None)"
| "parse_digits acc (c # d # cs) =
     (if is_digit c then parse_digits (10 * acc + digit_val c) (d # cs)
      else if c = CHR ''_'' \<and> is_digit d then parse_digits (10 * acc + digit_val d) cs
      else None)"

text \<open>
  The interpreter's limit on the conversion (\<^verbatim>\<open>sys.get_int_max_str_digits()\<close>, 4300 unless
  configured, 0 for no limit, absent from interpreters older than the limit, which is the
  case 0): a text with more digit characters than the limit raises \<^verbatim>\<open>ValueError\<close>. The
  sign and the underscores do not count, leading zeros do, and up to 640 digits are
  converted whatever the limit.
\<close>

definition exceeds_limit :: "nat \<Rightarrow> nat \<Rightarrow> bool" where
  "exceeds_limit max_str_digits n = (640 < n \<and> 0 < max_str_digits \<and> max_str_digits < n)"

definition parse_unsigned :: "nat \<Rightarrow> string \<Rightarrow> nat option" where
  "parse_unsigned max_str_digits s =
     (case s of
        [] \<Rightarrow> None
      | c # cs \<Rightarrow>
          if is_digit c then
            (if exceeds_limit max_str_digits (length (filter is_digit s)) then None
             else parse_digits (digit_val c) cs)
          else None)"

definition py_int :: "nat \<Rightarrow> string \<Rightarrow> int option" where
  "py_int max_str_digits s =
     (let t = strip s in
      case t of
        [] \<Rightarrow> None
      | c # cs \<Rightarrow>
          if c = CHR ''-'' then map_option (\<lambda>n. - int n) (parse_unsigned max_str_digits cs)
          else if c = CHR ''+'' then map_option int (parse_unsigned max_str_digits cs)
          else map_option int (parse_unsigned max_str_digits t))"

subsection \<open>Module initialisation (lines 12 to 32)\<close>

type_synonym environ = "string \<rightharpoonup> string"

text \<open>\<^verbatim>\<open>os.getenv(key)\<close> and \<^verbatim>\<open>os.getenv(key, default)\<close>.\<close>

definition os_getenv :: "environ \<Rightarrow> string \<Rightarrow> string \<Rightarrow> string" where
  "os_getenv env key dflt = (case env key of None \<Rightarrow> dflt | Some v \<Rightarrow> v)"

datatype log_level = DEBUG | INFO | WARNING

text \<open>The only exception module initialisation raises by itself: \<^verbatim>\<open>int\<close> rejecting a text.\<close>

datatype init_error = ValueError string

text \<open>
  The module's globals. \<open>client_timeout\<close> is the \<^verbatim>\<open>httpx.Timeout(2.0)\<close> the shared
  client is built with; \<open>log_level\<close> is the level given to \<^verbatim>\<open>logging.basicConfig\<close>.
\<close>

record globals =
  log_level :: log_level
  PORT_HEALTH :: int
  PORT :: int
  OLLAMA_URL :: string
  client_timeout :: real

text \<open>
  Lines 12 to 32, run by an interpreter with the digit limit \<open>max_str_digits\<close>. The port
  printed into \<open>OLLAMA_URL\<close> has no more digits than the text \<^verbatim>\<open>int\<close> accepted, so
  printing it stays within the limit.
\<close>

definition module_init :: "nat \<Rightarrow> environ \<Rightarrow> init_error + globals" where
  "module_init max_str_digits env =
     (let lvl = (if env ''LOG_LEVEL'' = Some ''DEBUG'' then DEBUG else INFO);
          ph_text = os_getenv env ''PORT_HEALTH'' ''8080''
      in case py_int max_str_digits ph_text of
           None \<Rightarrow> Inl (ValueError ph_text)
         | Some ph \<Rightarrow>
             (let p_text = os_getenv env ''PORT'' ''80''
              in case py_int max_str_digits p_text of
                   None \<Rightarrow> Inl (ValueError p_text)
                 | Some p \<Rightarrow>
                     Inr \<lparr>log_level = lvl, PORT_HEALTH = ph, PORT = p,
                          OLLAMA_URL = ''http://localhost:'' @ py_str p,
                          client_timeout = 2.0\<rparr>))"

text \<open>
  The \<^verbatim>\<open>__main__\<close> block: the module is initialised, then \<^verbatim>\<open>uvicorn.run\<close> is called
  with the host and port to listen on. The value is that call, or the exception that
  stopped the module before it.
\<close>

record listen =
  host :: string
  port :: int

definition main :: "nat \<Rightarrow> environ \<Rightarrow> init_error + listen" where
  "main max_str_digits env =
     (case module_init max_str_digits env of
        Inl e \<Rightarrow> Inl e
      | Inr g \<Rightarrow> Inr \<lparr>host = ''0.0.0.0'', port = PORT_HEALTH g\<rparr>)"

subsection \<open>Exceptions, the logger and the client\<close>

text \<open>
  The class of an exception: the errors \<^verbatim>\<open>httpx\<close> raises for a failed exchange, any
  other class below \<^verbatim>\<open>Exception\<close>, and the classes that derive from
  \<^verbatim>\<open>BaseException\<close> only. An exception is its class and its \<^verbatim>\<open>str\<close>.
\<close>

datatype exc_class =
    ConnectError | ConnectTimeout | ReadTimeout | WriteTimeout | PoolTimeout
  | ReadError | RemoteProtocolError | InvalidURL
  | OtherException string
  | CancelledError | KeyboardInterrupt | SystemExit | GeneratorExit

datatype exc = Exc exc_class string

fun exc_str :: "exc \<Rightarrow> string" where
  "exc_str (Exc c s) = s"

text \<open>\<^verbatim>\<open>isinstance(e, Exception)\<close>: what the clause \<^verbatim>\<open>except Exception\<close> catches.\<close>

fun derives_Exception :: "exc_class \<Rightarrow> bool" where
  "derives_Exception CancelledError = False"
| "derives_Exception KeyboardInterrupt = False"
| "derives_Exception SystemExit = False"
| "derives_Exception GeneratorExit = False"
| "derives_Exception _ = True"

fun isinstance_Exception :: "exc \<Rightarrow> bool" where
  "isinstance_Exception (Exc c s) = derives_Exception c"

datatype http_method = GET | HEAD

text \<open>
  A request as \<^verbatim>\<open>client.head(url, timeout=...)\<close> hands it to the client: \<open>headers\<close> are
  the headers the caller passes, beyond the client's own defaults.
\<close>

record request =
  request_method :: http_method
  url :: string
  timeout :: real
  headers :: "(string \<times> string) list"

text \<open>A response object is what reading its attribute \<^verbatim>\<open>status_code\<close> gives.\<close>

record response =
  status_code :: "exc + int"

text \<open>
  The surroundings of one probe: a call of the logger returns (\<open>None\<close>) or raises, the
  exchange with the upstream service returns a response or raises.
\<close>

record world =
  logger :: "log_level \<Rightarrow> string \<Rightarrow> exc option"
  client :: "request \<Rightarrow> exc + response"

datatype event = Logged log_level string | Sent request

type_synonym 'a eff = "event list \<times> (exc + 'a)"

definition returns :: "'a \<Rightarrow> 'a eff" where
  "returns a = ([], Inr a)"

text \<open>Sequencing: the second step runs only when the first returned.\<close>

definition and_then :: "'a eff \<Rightarrow> ('a \<Rightarrow> 'b eff) \<Rightarrow> 'b eff" where
  "and_then m f =
     (case m of
        (t, Inl e) \<Rightarrow> (t, Inl e)
      | (t, Inr a) \<Rightarrow> (case f a of (t', r) \<Rightarrow> (t @ t', r)))"

definition log_call :: "world \<Rightarrow> log_level \<Rightarrow> string \<Rightarrow> unit eff" where
  "log_call w lvl msg =
     ([Logged lvl msg], case logger w lvl msg of None \<Rightarrow> Inr () | Some e \<Rightarrow> Inl e)"

definition client_head :: "world \<Rightarrow> string \<Rightarrow> real \<Rightarrow> response eff" where
  "client_head w u t =
     (let rq = \<lparr>request_method = HEAD, url = u, timeout = t, headers = []\<rparr>
      in ([Sent rq], client w rq))"

definition read_status_code :: "response \<Rightarrow> int eff" where
  "read_status_code r = ([], status_code r)"

subsection \<open>The handler (lines 44 to 66)\<close>

type_synonym body = "(string \<times> string) list"

text \<open>The statements of the \<^verbatim>\<open>try\<close> block, lines 55 to 62.\<close>

definition try_block :: "globals \<Rightarrow> world \<Rightarrow> body eff" where
  "try_block g w =
     and_then (client_head w (OLLAMA_URL g @ ''/'') 2.0) (\<lambda>response.
     and_then (read_status_code response) (\<lambda>code.
       if code = 200 then
         and_then (log_call w DEBUG ''Health check: Ollama reachable'') (\<lambda>_.
         returns [(''status'', ''healthy''), (''ollama'', ''reachable'')])
       else
         and_then (log_call w WARNING
                     (''Health check: Ollama degraded (status '' @ py_str code @ '')'')) (\<lambda>_.
         returns [(''status'', ''healthy''), (''ollama'', ''degraded'')])))"

text \<open>
  \<^verbatim>\<open>try: ... except Exception as e: ...\<close>: an exception of the block that is an instance
  of \<^verbatim>\<open>Exception\<close> runs the handler; any other leaves the statement.
\<close>

definition try_except_Exception :: "'a eff \<Rightarrow> (exc \<Rightarrow> 'a eff) \<Rightarrow> 'a eff" where
  "try_except_Exception m h =
     (case m of
        (t, Inr a) \<Rightarrow> (t, Inr a)
      | (t, Inl e) \<Rightarrow>
          if isinstance_Exception e then (case h e of (t', r) \<Rightarrow> (t @ t', r))
          else (t, Inl e))"

definition health_check :: "globals \<Rightarrow> world \<Rightarrow> body eff" where
  "health_check g w =
     and_then (log_call w DEBUG ''GET /ping - Health check request'') (\<lambda>_.
     try_except_Exception (try_block g w) (\<lambda>e.
       and_then (log_call w WARNING (''Health check: Ollama not ready: '' @ exc_str e)) (\<lambda>_.
       returns [(''status'', ''healthy''), (''ollama'', ''initializing'')])))"

text \<open>
  The route \<^verbatim>\<open>@app.get("/ping")\<close>: the dictionary the handler returns becomes the JSON
  body of a response with the route's status code, 200; an exception that leaves the
  handler goes on to the serving layer.
\<close>

record http_response =
  status :: int
  json :: body

definition get_ping :: "globals \<Rightarrow> world \<Rightarrow> http_response eff" where
  "get_ping g w =
     (case health_check g w of
        (t, Inl e) \<Rightarrow> (t, Inl e)
      | (t, Inr b) \<Rightarrow> (t, Inr \<lparr>status = 200, json = b\<rparr>))"

text \<open>\<^verbatim>\<open>d[key]\<close> of a response body.\<close>

definition json_field :: "body \<Rightarrow> string \<Rightarrow> string option" where
  "json_field b k = map_of b k"

subsection \<open>Notions the properties are stated with\<close>

text \<open>
  The request of the upstream check, and the outcome of the check as the \<^verbatim>\<open>try\<close> block
  sees it: the status code read from the response, or the exception raised by the exchange
  or by reading the status code.
\<close>

definition probe_request :: "globals \<Rightarrow> request" where
  "probe_request g = \<lparr>request_method = HEAD, url = OLLAMA_URL g @ ''/'', timeout = 2.0, headers = []\<rparr>"

definition upstream_outcome :: "globals \<Rightarrow> world \<Rightarrow> exc + int" where
  "upstream_outcome g w =
     (case client w (probe_request g) of Inl e \<Rightarrow> Inl e | Inr r \<Rightarrow> status_code r)"

text \<open>
  An outcome the clause \<^verbatim>\<open>except Exception\<close> deals with: a value, or an exception that is
  an instance of \<^verbatim>\<open>Exception\<close>. Every error of \<^verbatim>\<open>httpx\<close> is one.
\<close>

fun catchable :: "exc + 'a \<Rightarrow> bool" where
  "catchable (Inl e) = isinstance_Exception e"
| "catchable (Inr v) = True"

text \<open>Every call of the logger returns, as a call of Python's \<^verbatim>\<open>logging\<close> does.\<close>

definition logs_return :: "world \<Rightarrow> bool" where
  "logs_return w = (\<forall>lvl msg. logger w lvl msg = None)"

text \<open>The requests among the calls a handler made, in order.\<close>

fun requests_sent :: "event list \<Rightarrow> request list" where
  "requests_sent [] = []"
| "requests_sent (Sent rq # t) = rq # requests_sent t"
| "requests_sent (Logged lvl msg # t) = requests_sent t"

text \<open>
  The classification of the specification, following its words: a response with status
  200 is \<open>Reachable\<close>, a response with any other status is \<open>Degraded\<close>, any failure to
  complete the exchange is \<open>Unreachable\<close>.
\<close>

datatype upstream_status = Reachable | Degraded | Unreachable

fun spec_classify :: "exc + int \<Rightarrow> upstream_status" where
  "spec_classify (Inr c) = (if c = 200 then Reachable else Degraded)"
| "spec_classify (Inl e) = Unreachable"

text \<open>The external names of the three classes, and the response the specification gives.\<close>

fun spec_name :: "upstream_status \<Rightarrow> string" where
  "spec_name Reachable = ''reachable''"
| "spec_name Degraded = ''degraded''"
| "spec_name Unreachable = ''initializing''"

definition spec_handle_probe :: "upstream_status \<Rightarrow> http_response" where
  "spec_handle_probe st =
     \<lparr>status = 200, json = [(''status'', ''healthy''), (''ollama'', spec_name st)]\<rparr>"

text \<open>
  What \<^verbatim>\<open>int\<close> accepts, said as a property of the text and not as a parser: between the
  white space, after an optional sign, a non-empty text of digits and underscores that
  begins and ends with a digit and has no two underscores in a row, with no more digits
  than the interpreter's limit.
\<close>

fun single_underscores :: "string \<Rightarrow> bool" where
  "single_underscores [] = True"
| "single_underscores [c] = True"
| "single_underscores (c # d # cs) =
     (\<not> (c = CHR ''_'' \<and> d = CHR ''_'') \<and> single_underscores (d # cs))"

definition digit_groups :: "string \<Rightarrow> bool" where
  "digit_groups b =
     (b \<noteq> [] \<and> is_digit (hd b) \<and> is_digit (last b)
      \<and> list_all (\<lambda>c. is_digit c \<or> c = CHR ''_'') b \<and> single_underscores b)"

definition unsigned_part :: "string \<Rightarrow> string" where
  "unsigned_part t =
     (if t \<noteq> [] \<and> (hd t = CHR ''-'' \<or> hd t = CHR ''+'') then tl t else t)"

definition decimal_literal :: "nat \<Rightarrow> string \<Rightarrow> bool" where
  "decimal_literal max_str_digits s =
     (digit_groups (unsigned_part (strip s))
      \<and> \<not> exceeds_limit max_str_digits (length (filter is_digit (unsigned_part (strip s)))))"

text \<open>The number of digits of the numeral of an integer.\<close>

definition num_digits :: "int \<Rightarrow> nat" where
  "num_digits i = length (digits_nat (nat \<bar>i\<bar>))"

text \<open>The value of a string the digit parser reads, given the value read so far.\<close>

definition dec_value :: "nat \<Rightarrow> string \<Rightarrow> nat" where
  "dec_value acc cs = foldl (\<lambda>a c. 10 * a + digit_val c) acc cs"

subsection \<open>Concrete surroundings\<close>

text \<open>The globals of a process started with none of the three variables set.\<close>

definition default_globals :: globals where
  "default_globals =
     \<lparr>log_level = INFO, PORT_HEALTH = 8080, PORT = 80,
      OLLAMA_URL = ''http://localhost:80'', client_timeout = 2.0\<rparr>"

definition quiet_logger :: "log_level \<Rightarrow> string \<Rightarrow> exc option" where
  "quiet_logger lvl msg = None"

text \<open>An upstream service that answers every request with the status code \<open>c\<close>.\<close>

definition world_status :: "int \<Rightarrow> world" where
  "world_status c = \<lparr>logger = quiet_logger, client = (\<lambda>rq. Inr \<lparr>status_code = Inr c\<rparr>)\<rparr>"

text \<open>An exchange that raises \<open>e\<close>: nothing listens, or the timeout expires.\<close>

definition world_raises :: "exc \<Rightarrow> world" where
  "world_raises e = \<lparr>logger = quiet_logger, client = (\<lambda>rq. Inl e)\<rparr>"

text \<open>A response object whose attribute cannot be read.\<close>

definition world_broken_response :: "exc \<Rightarrow> world" where
  "world_broken_response e =
     \<lparr>logger = quiet_logger, client = (\<lambda>rq. Inr \<lparr>status_code = Inl e\<rparr>)\<rparr>"

text \<open>A logger whose every call raises \<open>e\<close>, in front of a service that answers 200.\<close>

definition world_log_down :: "exc \<Rightarrow> world" where
  "world_log_down e =
     \<lparr>logger = (\<lambda>lvl msg. Some e), client = (\<lambda>rq. Inr \<lparr>status_code = Inr 200\<rparr>)\<rparr>"

text \<open>
  A logger that raises \<open>e\<close> on the two messages of the \<^verbatim>\<open>try\<close> block only, in front of
  a service that answers with the status code \<open>c\<close>.
\<close>

definition world_log_fails_in_try :: "exc \<Rightarrow> int \<Rightarrow> world" where
  "world_log_fails_in_try e c =
     \<lparr>logger = (\<lambda>lvl msg.
        if msg = ''Health check: Ollama reachable''
           \<or> msg = ''Health check: Ollama degraded (status '' @ py_str c @ '')''
        then Some e else None),
      client = (\<lambda>rq. Inr \<lparr>status_code = Inr c\<rparr>)\<rparr>"

text \<open>A process environment that sets both port variables.\<close>

definition env_ports :: "string \<Rightarrow> string \<Rightarrow> environ" where
  "env_ports ph p = [''PORT_HEALTH'' \<mapsto> ph, ''PORT'' \<mapsto> p]"

text \<open>The text \<^verbatim>\<open>80\<close> after the separator of code point 28.\<close>

definition separator_80 :: string where
  "separator_80 = CHR 0x1C # ''80''"

text \<open>A numeral of 5000 digits.\<close>

definition long_numeral :: string where
  "long_numeral = replicate 5000 (CHR ''1'')"

definition disk_full :: exc where
  "disk_full = Exc (OtherException ''OSError'') ''[Errno 28] No space left on device''"

definition connection_refused :: exc where
  "connection_refused = Exc ConnectError ''All connection attempts failed''"

definition read_timed_out :: exc where
  "read_timed_out = Exc ReadTimeout []"

definition cancelled :: exc where
  "cancelled = Exc CancelledError []"

section \<open>Properties\<close>

subsection \<open>Decimal numerals: \<^verbatim>\<open>int(str(n))\<close> is \<open>n\<close>\<close>

lemma digit_char_cases:
  assumes "d < 10"
  shows "d = 0 \<or> d = 1 \<or> d = 2 \<or> d = 3 \<or> d = 4 \<or> d = 5 \<or> d = 6 \<or> d = 7 \<or> d = 8 \<or> d = (9::nat)"
  using assms by arith

lemma digit_char_props:
  assumes "d < 10"
  shows "is_digit (digit_char d)" and "digit_val (digit_char d) = d"
    and "\<not> is_space (digit_char d)" and "digit_char d \<noteq> CHR ''-''" and "digit_char d \<noteq> CHR ''+''"
  using digit_char_cases [OF assms]
  by (auto simp: digit_char_def is_digit_def digit_val_def is_space_def)

lemma digits_nat_all_digits: "\<forall>c \<in> set (digits_nat n). is_digit c \<and> \<not> is_space c"
proof (induction n rule: digits_nat.induct)
  case (1 n)
  show ?case
  proof (cases "n < 10")
    case True
    then show ?thesis by (simp add: digits_nat.simps [of n] digit_char_props)
  next
    case False
    with "1" show ?thesis by (simp add: digits_nat.simps [of n] digit_char_props)
  qed
qed

lemma digits_nat_nonempty: "digits_nat n \<noteq> []"
  by (simp add: digits_nat.simps [of n])

lemma filter_digits_nat: "filter is_digit (digits_nat n) = digits_nat n"
  using digits_nat_all_digits [of n] by (simp add: filter_id_conv)

lemma parse_digits_all_digits:
  "\<forall>c \<in> set cs. is_digit c \<Longrightarrow> parse_digits acc cs = Some (dec_value acc cs)"
  by (induction acc cs rule: parse_digits.induct) (simp_all add: dec_value_def)

lemma dec_value_digits_nat: "dec_value 0 (digits_nat n) = n"
proof (induction n rule: digits_nat.induct)
  case (1 n)
  show ?case
  proof (cases "n < 10")
    case True
    then show ?thesis by (simp add: digits_nat.simps [of n] dec_value_def digit_char_props)
  next
    case False
    with "1" have "dec_value 0 (digits_nat (n div 10)) = n div 10" by simp
    with False show ?thesis
      by (simp add: digits_nat.simps [of n] dec_value_def digit_char_props)
  qed
qed

lemma parse_unsigned_digits_nat:
  assumes "\<not> exceeds_limit mx (length (digits_nat n))"
  shows "parse_unsigned mx (digits_nat n) = Some n"
proof (cases "digits_nat n")
  case Nil
  then show ?thesis by (simp add: digits_nat_nonempty)
next
  case (Cons c cs)
  with digits_nat_all_digits [of n] have d: "is_digit c" "\<forall>x \<in> set cs. is_digit x" by auto
  have "dec_value (digit_val c) cs = dec_value 0 (c # cs)" by (simp add: dec_value_def)
  also have "\<dots> = n" using dec_value_digits_nat [of n] Cons by simp
  finally have v: "dec_value (digit_val c) cs = n" .
  have f: "filter is_digit (c # cs) = c # cs"
    using filter_digits_nat [of n] Cons by simp
  have "parse_unsigned mx (c # cs) = parse_digits (digit_val c) cs"
    using d(1) assms Cons by (simp only: parse_unsigned_def f list.case if_True if_False)
  also have "\<dots> = Some (dec_value (digit_val c) cs)"
    using d by (rule_tac parse_digits_all_digits)
  finally show ?thesis using v Cons by simp
qed

lemma strip_id:
  assumes "s \<noteq> []" "\<not> is_space (hd s)" "\<not> is_space (last s)"
  shows "strip s = s"
proof -
  from assms have 1: "dropWhile is_space s = s" by (cases s) auto
  from assms have "rev s \<noteq> []" "\<not> is_space (hd (rev s))" by (auto simp: hd_rev)
  then have "dropWhile is_space (rev s) = rev s" by (cases "rev s") auto
  with 1 show ?thesis by (simp add: strip_def)
qed

lemma strip_digits_nat: "strip (digits_nat n) = digits_nat n"
  using digits_nat_all_digits [of n] digits_nat_nonempty [of n]
  by (intro strip_id) (auto simp: hd_in_set last_in_set)

lemma strip_minus_digits_nat: "strip (CHR ''-'' # digits_nat n) = CHR ''-'' # digits_nat n"
  using digits_nat_all_digits [of n] digits_nat_nonempty [of n]
  by (intro strip_id) (auto simp: is_space_def last_in_set)

lemma hd_digits_nat: "digits_nat n = c # cs \<Longrightarrow> c \<noteq> CHR ''-'' \<and> c \<noteq> CHR ''+''"
  using digits_nat_all_digits [of n] by (auto simp: is_digit_def)

lemma py_int_py_str:
  assumes "\<not> exceeds_limit mx (num_digits i)"
  shows "py_int mx (py_str i) = Some i"
proof (cases "i < 0")
  case True
  then have "nat \<bar>i\<bar> = nat (- i)" by simp
  with assms have "parse_unsigned mx (digits_nat (nat (- i))) = Some (nat (- i))"
    by (simp add: num_digits_def parse_unsigned_digits_nat)
  with True show ?thesis
    by (simp add: py_int_def py_str_def strip_minus_digits_nat)
next
  case False
  then have a: "nat \<bar>i\<bar> = nat i" by simp
  obtain c cs where cs: "digits_nat (nat i) = c # cs"
    using digits_nat_nonempty [of "nat i"] by (cases "digits_nat (nat i)") auto
  from hd_digits_nat [OF cs] have "c \<noteq> CHR ''-''" "c \<noteq> CHR ''+''" by auto
  moreover have "parse_unsigned mx (c # cs) = Some (nat i)"
    using parse_unsigned_digits_nat [of mx "nat i"] cs assms a by (simp add: num_digits_def)
  moreover have "strip (c # cs) = c # cs"
    using strip_digits_nat [of "nat i"] cs by simp
  ultimately have "py_int mx (c # cs) = Some (int (nat i))"
    by (simp add: py_int_def)
  with False cs show ?thesis by (simp add: py_str_def)
qed

subsection \<open>The texts \<^verbatim>\<open>int\<close> accepts\<close>

lemma is_digit_not_sign: "is_digit c \<Longrightarrow> c \<noteq> CHR ''_'' \<and> c \<noteq> CHR ''-'' \<and> c \<noteq> CHR ''+''"
  by (auto simp: is_digit_def)

lemma single_underscores_Cons:
  "c \<noteq> CHR ''_'' \<Longrightarrow> single_underscores (c # cs) = single_underscores cs"
  by (cases cs) simp_all

lemma parse_digits_accepts_iff:
  "parse_digits acc cs \<noteq> None \<longleftrightarrow>
     cs = [] \<or> (is_digit (last cs) \<and> list_all (\<lambda>c. is_digit c \<or> c = CHR ''_'') cs
                \<and> single_underscores cs)"
proof (induction acc cs rule: parse_digits.induct)
  case (1 acc)
  show ?case by simp
next
  case (2 acc c)
  show ?case by simp
next
  case (3 acc c d cs)
  show ?case
  proof (cases "is_digit c")
    case True
    with "3.IH"(1) show ?thesis
      by (simp add: is_digit_not_sign)
  next
    case c: False
    show ?thesis
    proof (cases "c = CHR ''_'' \<and> is_digit d")
      case True
      with c "3.IH"(2) show ?thesis
        by (cases cs) (auto simp: is_digit_not_sign single_underscores_Cons)
    next
      case False
      with c show ?thesis by (auto simp: is_digit_not_sign)
    qed
  qed
qed

lemma parse_unsigned_accepts_iff:
  "parse_unsigned mx b \<noteq> None \<longleftrightarrow>
     digit_groups b \<and> \<not> exceeds_limit mx (length (filter is_digit b))"
proof (cases b)
  case Nil
  then show ?thesis by (simp add: parse_unsigned_def digit_groups_def)
next
  case (Cons c cs)
  show ?thesis
  proof (cases "is_digit c")
    case False
    with Cons show ?thesis by (simp add: parse_unsigned_def digit_groups_def)
  next
    case True
    then have "digit_groups (c # cs) \<longleftrightarrow>
        cs = [] \<or> (is_digit (last cs) \<and> list_all (\<lambda>c. is_digit c \<or> c = CHR ''_'') cs
                   \<and> single_underscores cs)"
      by (auto simp: digit_groups_def single_underscores_Cons is_digit_not_sign)
    then have "digit_groups (c # cs) \<longleftrightarrow> parse_digits (digit_val c) cs \<noteq> None"
      by (simp only: parse_digits_accepts_iff)
    with True Cons show ?thesis
      by (auto simp: parse_unsigned_def)
  qed
qed

text \<open>\<^verbatim>\<open>int\<close> raises exactly on the texts that are not decimal literals.\<close>

lemma py_int_accepts_iff: "py_int mx s \<noteq> None \<longleftrightarrow> decimal_literal mx s"
proof (cases "strip s")
  case Nil
  then show ?thesis
    by (simp add: py_int_def decimal_literal_def unsigned_part_def digit_groups_def)
next
  case (Cons c cs)
  show ?thesis
  proof (cases "c = CHR ''-'' \<or> c = CHR ''+''")
    case True
    with Cons have "unsigned_part (strip s) = cs" by (simp add: unsigned_part_def)
    with True Cons show ?thesis
      using parse_unsigned_accepts_iff [of mx cs]
      by (auto simp: py_int_def decimal_literal_def)
  next
    case False
    with Cons have "unsigned_part (strip s) = c # cs" by (simp add: unsigned_part_def)
    with False Cons show ?thesis
      using parse_unsigned_accepts_iff [of mx "c # cs"]
      by (auto simp: py_int_def decimal_literal_def)
  qed
qed

lemma py_int_rejects_iff: "py_int mx s = None \<longleftrightarrow> \<not> decimal_literal mx s"
  using py_int_accepts_iff [of mx s] by blast

lemma long_numeral_rejected: "\<not> decimal_literal 4300 long_numeral"
proof -
  have "strip long_numeral = long_numeral"
    by (rule strip_id) (simp_all add: long_numeral_def is_space_def)
  moreover have "unsigned_part long_numeral = long_numeral"
    by (simp add: unsigned_part_def long_numeral_def)
  moreover have "filter is_digit long_numeral = long_numeral"
    by (simp add: long_numeral_def is_digit_def)
  moreover have "length long_numeral = 5000"
    by (simp add: long_numeral_def)
  ultimately show ?thesis
    by (simp add: decimal_literal_def exceeds_limit_def)
qed

subsection \<open>What the handler computes\<close>

lemmas eff_defs =
  and_then_def log_call_def client_head_def read_status_code_def returns_def
  try_except_Exception_def

lemmas world_defs =
  world_status_def world_raises_def world_broken_response_def world_log_down_def
  world_log_fails_in_try_def quiet_logger_def default_globals_def
  upstream_outcome_def probe_request_def logs_return_def

lemma try_block_result:
  "snd (try_block g w) =
     (case upstream_outcome g w of
        Inl e \<Rightarrow> Inl e
      | Inr c \<Rightarrow>
          if c = 200 then
            (case logger w DEBUG ''Health check: Ollama reachable'' of
               Some e \<Rightarrow> Inl e
             | None \<Rightarrow> Inr [(''status'', ''healthy''), (''ollama'', ''reachable'')])
          else
            (case logger w WARNING
                    (''Health check: Ollama degraded (status '' @ py_str c @ '')'') of
               Some e \<Rightarrow> Inl e
             | None \<Rightarrow> Inr [(''status'', ''healthy''), (''ollama'', ''degraded'')]))"
  by (simp add: try_block_def eff_defs upstream_outcome_def probe_request_def
      split: sum.splits option.splits prod.splits)

lemma health_check_result:
  "snd (health_check g w) =
     (case logger w DEBUG ''GET /ping - Health check request'' of
        Some e \<Rightarrow> Inl e
      | None \<Rightarrow>
          (case snd (try_block g w) of
             Inr b \<Rightarrow> Inr b
           | Inl e \<Rightarrow>
               if isinstance_Exception e then
                 (case logger w WARNING (''Health check: Ollama not ready: '' @ exc_str e) of
                    Some e' \<Rightarrow> Inl e'
                  | None \<Rightarrow> Inr [(''status'', ''healthy''), (''ollama'', ''initializing'')])
               else Inl e))"
  by (cases "try_block g w")
     (simp add: health_check_def eff_defs split: sum.splits option.splits prod.splits)

lemma get_ping_result:
  "snd (get_ping g w) =
     (case snd (health_check g w) of
        Inl e \<Rightarrow> Inl e
      | Inr b \<Rightarrow> Inr \<lparr>status = 200, json = b\<rparr>)"
  by (simp add: get_ping_def split: sum.splits prod.splits)

lemma get_ping_trace: "fst (get_ping g w) = fst (health_check g w)"
  by (simp add: get_ping_def split: sum.splits prod.splits)

lemma requests_sent_append: "requests_sent (t @ t') = requests_sent t @ requests_sent t'"
  by (induction t rule: requests_sent.induct) simp_all

lemma requests_sent_try_block: "requests_sent (fst (try_block g w)) = [probe_request g]"
  by (auto simp: try_block_def eff_defs Let_def probe_request_def requests_sent_append
      split: sum.splits option.splits prod.splits)

lemma requests_sent_health_check:
  "requests_sent (fst (health_check g w)) =
     (if logger w DEBUG ''GET /ping - Health check request'' = None then [probe_request g]
      else [])"
  using requests_sent_try_block [of g w]
  by (cases "try_block g w")
     (auto simp: health_check_def eff_defs requests_sent_append
      split: sum.splits option.splits prod.splits)

text \<open>
  With a logger that returns, the handler is the specification's: the response of the
  class of the upstream outcome.
\<close>

lemma get_ping_refines_spec:
  assumes "logs_return w" and "catchable (upstream_outcome g w)"
  shows "snd (get_ping g w) = Inr (spec_handle_probe (spec_classify (upstream_outcome g w)))"
  using assms
  by (cases "upstream_outcome g w")
     (simp_all add: get_ping_result health_check_result try_block_result logs_return_def
        spec_handle_probe_def)

lemma module_init_globals:
  assumes "module_init mx env = Inr g"
  shows "py_int mx (os_getenv env ''PORT_HEALTH'' ''8080'') = Some (PORT_HEALTH g)"
    and "py_int mx (os_getenv env ''PORT'' ''80'') = Some (PORT g)"
    and "OLLAMA_URL g = ''http://localhost:'' @ py_str (PORT g)"
    and "client_timeout g = 2.0"
  using assms by (auto simp: module_init_def Let_def split: option.splits)

subsection \<open>The response to a probe\<close>

text \<open>
  C1. Whatever the upstream check gives (status 200, any other status, a timeout, a
  refused connection or any other error of the exchange), \<^verbatim>\<open>GET /ping\<close> answers with
  status 200 and a body whose field \<^verbatim>\<open>status\<close> is \<^verbatim>\<open>healthy\<close>. The logger is taken to
  return, and a failed exchange to raise an instance of \<^verbatim>\<open>Exception\<close>.
\<close>

theorem ping_always_200_healthy:
  assumes "logs_return w" and "catchable (upstream_outcome g w)"
  shows "\<exists>b. snd (get_ping g w) = Inr \<lparr>status = 200, json = b\<rparr>
             \<and> json_field b ''status'' = Some ''healthy''"
  using get_ping_refines_spec [OF assms]
  by (simp add: spec_handle_probe_def json_field_def)

theorem ping_always_200_healthy_witness:
  "logs_return (world_raises read_timed_out)
   \<and> catchable (upstream_outcome default_globals (world_raises read_timed_out))
   \<and> (\<exists>b. snd (get_ping default_globals (world_raises read_timed_out))
              = Inr \<lparr>status = 200, json = b\<rparr>
          \<and> json_field b ''status'' = Some ''healthy'')"
proof -
  have l: "logs_return (world_raises read_timed_out)"
    by (simp add: world_defs)
  have c: "catchable (upstream_outcome default_globals (world_raises read_timed_out))"
    by (simp add: world_defs read_timed_out_def)
  from ping_always_200_healthy [OF l c] l c show ?thesis by simp
qed

text \<open>
  C2. When the exchange completes and the status code read from the response is 200, the
  body's field \<^verbatim>\<open>ollama\<close> is \<^verbatim>\<open>reachable\<close>; and 200 is the only status code with that
  field, no other code of the 2xx range has it.
\<close>

theorem status_200_reachable:
  assumes "logs_return w" and "upstream_outcome g w = Inr c"
  shows "\<exists>b. snd (health_check g w) = Inr b
             \<and> (json_field b ''ollama'' = Some ''reachable'') = (c = 200)"
  using assms
  by (simp add: health_check_result try_block_result logs_return_def json_field_def)

theorem status_200_reachable_witness:
  "logs_return (world_status 200)
   \<and> upstream_outcome default_globals (world_status 200) = Inr 200
   \<and> (\<exists>b. snd (health_check default_globals (world_status 200)) = Inr b
          \<and> (json_field b ''ollama'' = Some ''reachable'') = ((200::int) = 200))"
proof -
  have l: "logs_return (world_status 200)"
    by (simp add: world_defs)
  have u: "upstream_outcome default_globals (world_status 200) = Inr 200"
    by (simp add: world_defs)
  from status_200_reachable [OF l u] l u show ?thesis by simp
qed

text \<open>
  C3. When the exchange completes with a status code other than 200, the body's field
  \<^verbatim>\<open>ollama\<close> is \<^verbatim>\<open>degraded\<close>.
\<close>

theorem other_status_degraded:
  assumes "logs_return w" and "upstream_outcome g w = Inr c" and "c \<noteq> 200"
  shows "snd (health_check g w) = Inr [(''status'', ''healthy''), (''ollama'', ''degraded'')]
         \<and> (\<exists>b. snd (health_check g w) = Inr b \<and> json_field b ''ollama'' = Some ''degraded'')"
  using assms
  by (simp add: health_check_result try_block_result logs_return_def json_field_def)

theorem other_status_degraded_witness:
  "logs_return (world_status 503)
   \<and> upstream_outcome default_globals (world_status 503) = Inr 503
   \<and> (503::int) \<noteq> 200
   \<and> snd (health_check default_globals (world_status 503))
       = Inr [(''status'', ''healthy''), (''ollama'', ''degraded'')]"
proof -
  have l: "logs_return (world_status 503)"
    by (simp add: world_defs)
  have u: "upstream_outcome default_globals (world_status 503) = Inr 503"
    by (simp add: world_defs)
  have n: "(503::int) \<noteq> 200" by simp
  from other_status_degraded [OF l u n] l u show ?thesis by simp
qed

text \<open>
  C4. A failure of the upstream check (the exchange raises: connection refused, timeout,
  reset, or any other instance of \<^verbatim>\<open>Exception\<close>) is caught in the handler: the handler
  returns the body with \<^verbatim>\<open>ollama\<close> set to \<^verbatim>\<open>initializing\<close>, and the route answers 200, so
  no exception reaches the serving layer.
\<close>

theorem upstream_failure_initializing:
  assumes "logs_return w" and "upstream_outcome g w = Inl e" and "isinstance_Exception e"
  shows "snd (health_check g w) = Inr [(''status'', ''healthy''), (''ollama'', ''initializing'')]
         \<and> snd (get_ping g w)
             = Inr \<lparr>status = 200, json = [(''status'', ''healthy''), (''ollama'', ''initializing'')]\<rparr>"
  using assms
  by (simp add: get_ping_result health_check_result try_block_result logs_return_def)

theorem upstream_failure_initializing_witness:
  "logs_return (world_raises connection_refused)
   \<and> upstream_outcome default_globals (world_raises connection_refused) = Inl connection_refused
   \<and> isinstance_Exception connection_refused
   \<and> snd (health_check default_globals (world_raises connection_refused))
       = Inr [(''status'', ''healthy''), (''ollama'', ''initializing'')]"
proof -
  have l: "logs_return (world_raises connection_refused)"
    by (simp add: world_defs)
  have u: "upstream_outcome default_globals (world_raises connection_refused)
             = Inl connection_refused"
    by (simp add: world_defs)
  have i: "isinstance_Exception connection_refused"
    by (simp add: connection_refused_def)
  from upstream_failure_initializing [OF l u i] l u i show ?thesis by simp
qed

subsection \<open>The request of the upstream check\<close>

text \<open>
  C6. The ports are read when the module is initialised: the upstream port from
  \<^verbatim>\<open>PORT\<close> (80 when unset), the listening port from \<^verbatim>\<open>PORT_HEALTH\<close> (8080 when unset),
  which is the port \<^verbatim>\<open>uvicorn.run\<close> is given. Every probe that gets past its first log call
  sends exactly one request: \<^verbatim>\<open>HEAD\<close> on the root path of
  \<^verbatim>\<open>http://localhost:<PORT>/\<close>, with timeout 2.0 and no headers of its own; a probe sends
  no other request.
\<close>

theorem upstream_check_is_head_on_root:
  assumes "module_init mx env = Inr g"
  shows "(env ''PORT'' = None \<longrightarrow> PORT g = 80)
       \<and> (\<forall>s. env ''PORT'' = Some s \<longrightarrow> py_int mx s = Some (PORT g))
       \<and> (env ''PORT_HEALTH'' = None \<longrightarrow> PORT_HEALTH g = 8080)
       \<and> (\<forall>s. env ''PORT_HEALTH'' = Some s \<longrightarrow> py_int mx s = Some (PORT_HEALTH g))
       \<and> main mx env = Inr \<lparr>host = ''0.0.0.0'', port = PORT_HEALTH g\<rparr>
       \<and> (logger w DEBUG ''GET /ping - Health check request'' = None \<longrightarrow>
            requests_sent (fst (get_ping g w)) =
              [\<lparr>request_method = HEAD, url = ''http://localhost:'' @ py_str (PORT g) @ ''/'',
                timeout = 2.0, headers = []\<rparr>])
       \<and> set (requests_sent (fst (get_ping g w))) \<subseteq>
              {\<lparr>request_method = HEAD, url = ''http://localhost:'' @ py_str (PORT g) @ ''/'',
                timeout = 2.0, headers = []\<rparr>}"
proof -
  note g = module_init_globals [OF assms]
  have p: "probe_request g =
      \<lparr>request_method = HEAD, url = ''http://localhost:'' @ py_str (PORT g) @ ''/'',
       timeout = 2.0, headers = []\<rparr>"
    by (simp add: probe_request_def g(3))
  have d: "py_int mx ''80'' = Some 80" "py_int mx ''8080'' = Some 8080"
    by (simp_all add: py_int_def strip_def is_space_def parse_unsigned_def is_digit_def
        digit_val_def exceeds_limit_def)
  have 1: "env ''PORT'' = None \<longrightarrow> PORT g = 80"
    using g(2) d by (auto simp: os_getenv_def)
  have 2: "\<forall>s. env ''PORT'' = Some s \<longrightarrow> py_int mx s = Some (PORT g)"
    using g(2) by (auto simp: os_getenv_def)
  have 3: "env ''PORT_HEALTH'' = None \<longrightarrow> PORT_HEALTH g = 8080"
    using g(1) d by (auto simp: os_getenv_def)
  have 4: "\<forall>s. env ''PORT_HEALTH'' = Some s \<longrightarrow> py_int mx s = Some (PORT_HEALTH g)"
    using g(1) by (auto simp: os_getenv_def)
  have 5: "main mx env = Inr \<lparr>host = ''0.0.0.0'', port = PORT_HEALTH g\<rparr>"
    using assms by (simp add: main_def)
  have 6: "requests_sent (fst (get_ping g w)) =
      (if logger w DEBUG ''GET /ping - Health check request'' = None
       then [\<lparr>request_method = HEAD, url = ''http://localhost:'' @ py_str (PORT g) @ ''/'',
               timeout = 2.0, headers = []\<rparr>]
       else [])"
    by (simp only: get_ping_trace requests_sent_health_check p)
  have 7: "set (requests_sent (fst (get_ping g w))) \<subseteq>
      {\<lparr>request_method = HEAD, url = ''http://localhost:'' @ py_str (PORT g) @ ''/'',
        timeout = 2.0, headers = []\<rparr>}"
    by (simp only: 6 split: if_splits) simp
  have 8: "logger w DEBUG ''GET /ping - Health check request'' = None \<longrightarrow>
      requests_sent (fst (get_ping g w)) =
        [\<lparr>request_method = HEAD, url = ''http://localhost:'' @ py_str (PORT g) @ ''/'',
          timeout = 2.0, headers = []\<rparr>]"
    by (simp add: 6)
  from 1 2 3 4 5 8 7 show ?thesis by (intro conjI)
qed

theorem upstream_check_is_head_on_root_witness:
  "module_init 4300 (env_ports ''8000'' ''11434'')
     = Inr \<lparr>log_level = INFO, PORT_HEALTH = 8000, PORT = 11434,
            OLLAMA_URL = ''http://localhost:11434'', client_timeout = 2.0\<rparr>
   \<and> module_init 4300 Map.empty = Inr default_globals
   \<and> PORT default_globals = 80 \<and> PORT_HEALTH default_globals = 8080
   \<and> main 4300 Map.empty = Inr \<lparr>host = ''0.0.0.0'', port = 8080\<rparr>
   \<and> logger (world_status 200) DEBUG ''GET /ping - Health check request'' = None
   \<and> requests_sent (fst (get_ping default_globals (world_status 200)))
       = [\<lparr>request_method = HEAD, url = ''http://localhost:80/'', timeout = 2.0, headers = []\<rparr>]
   \<and> requests_sent (fst (get_ping
         \<lparr>log_level = INFO, PORT_HEALTH = 8000, PORT = 11434,
          OLLAMA_URL = ''http://localhost:11434'', client_timeout = 2.0\<rparr> (world_status 200)))
       = [\<lparr>request_method = HEAD, url = ''http://localhost:11434/'', timeout = 2.0, headers = []\<rparr>]"
proof -
  have s: "py_str 80 = ''80''" "py_str 11434 = ''11434''"
    by (simp_all add: py_str_def digits_nat.simps digit_char_def)
  have i: "py_int 4300 ''80'' = Some 80" "py_int 4300 ''8080'' = Some 8080"
          "py_int 4300 ''8000'' = Some 8000" "py_int 4300 ''11434'' = Some 11434"
    by (simp_all add: py_int_def strip_def is_space_def parse_unsigned_def is_digit_def
        digit_val_def exceeds_limit_def)
  have m1: "module_init 4300 (env_ports ''8000'' ''11434'')
     = Inr \<lparr>log_level = INFO, PORT_HEALTH = 8000, PORT = 11434,
            OLLAMA_URL = ''http://localhost:11434'', client_timeout = 2.0\<rparr>"
    by (simp add: module_init_def env_ports_def os_getenv_def i s)
  have m0: "module_init 4300 Map.empty = Inr default_globals"
    by (simp add: module_init_def os_getenv_def i s default_globals_def)
  have l: "logger (world_status 200) DEBUG ''GET /ping - Health check request'' = None"
    by (simp add: world_defs)
  from upstream_check_is_head_on_root [OF m0, of "world_status 200"]
       upstream_check_is_head_on_root [OF m1, of "world_status 200"] m0 m1 l s
  show ?thesis by (simp add: default_globals_def)
qed

subsection \<open>Independence of the probes\<close>

text \<open>
  C7. The handler takes the module's globals and its surroundings and nothing of the
  request, and gives the globals back to nobody: its value is a function of the two. Two
  probes whose upstream checks fall in the same class of the specification (reachable,
  degraded, unreachable) get the same response, whatever the status codes or the
  exceptions were.
\<close>

theorem same_upstream_state_same_response:
  assumes "logs_return w" and "logs_return w'"
    and "catchable (upstream_outcome g w)" and "catchable (upstream_outcome g w')"
    and "spec_classify (upstream_outcome g w) = spec_classify (upstream_outcome g w')"
  shows "snd (get_ping g w) = snd (get_ping g w')"
  using assms by (simp add: get_ping_refines_spec)

theorem same_upstream_state_same_response_witness:
  "logs_return (world_status 503) \<and> logs_return (world_status 404)
   \<and> catchable (upstream_outcome default_globals (world_status 503))
   \<and> catchable (upstream_outcome default_globals (world_status 404))
   \<and> spec_classify (upstream_outcome default_globals (world_status 503))
       = spec_classify (upstream_outcome default_globals (world_status 404))
   \<and> snd (get_ping default_globals (world_status 503))
       = snd (get_ping default_globals (world_status 404))"
proof -
  have l: "logs_return (world_status 503)" "logs_return (world_status 404)"
    by (simp_all add: world_defs)
  have c: "catchable (upstream_outcome default_globals (world_status 503))"
          "catchable (upstream_outcome default_globals (world_status 404))"
    by (simp_all add: world_defs)
  have k: "spec_classify (upstream_outcome default_globals (world_status 503))
             = spec_classify (upstream_outcome default_globals (world_status 404))"
    by (simp add: world_defs)
  from same_upstream_state_same_response [OF l c k] l c k show ?thesis by simp
qed

subsection \<open>Failures of the logger\<close>

text \<open>
  C8, the claim as it stands fails: the first log call (line 51) is outside the \<^verbatim>\<open>try\<close>
  statement, so an exception it raises leaves the handler, and no response with status 200
  is built. Here every call of the logger raises \<^verbatim>\<open>OSError\<close>.
\<close>

theorem log_failure_propagates_counterexample:
  "snd (get_ping default_globals (world_log_down disk_full)) = Inl disk_full"
  by (simp add: get_ping_result health_check_result world_defs)

text \<open>
  C8, amended. A log call that raises inside the \<^verbatim>\<open>try\<close> block (lines 58 and 61) does not
  reach the caller: when the two log calls outside the block (lines 51 and 65) return, and
  what is raised is an instance of \<^verbatim>\<open>Exception\<close>, the route answers 200 with \<^verbatim>\<open>status\<close>
  \<^verbatim>\<open>healthy\<close>.
\<close>

theorem log_failure_in_try_is_caught:
  assumes "logger w DEBUG ''GET /ping - Health check request'' = None"
    and "\<forall>t. logger w WARNING (''Health check: Ollama not ready: '' @ t) = None"
    and "\<forall>lvl msg e. logger w lvl msg = Some e \<longrightarrow> isinstance_Exception e"
    and "catchable (upstream_outcome g w)"
  shows "\<exists>b. snd (get_ping g w) = Inr \<lparr>status = 200, json = b\<rparr>
             \<and> json_field b ''status'' = Some ''healthy''"
proof (cases "snd (try_block g w)")
  case (Inr b)
  then have "b = [(''status'', ''healthy''), (''ollama'', ''reachable'')]
           \<or> b = [(''status'', ''healthy''), (''ollama'', ''degraded'')]"
    by (auto simp: try_block_result split: sum.splits if_splits option.splits)
  with Inr assms(1) show ?thesis
    by (auto simp: get_ping_result health_check_result json_field_def)
next
  case (Inl e)
  with assms(3,4) have "isinstance_Exception e"
    by (auto simp: try_block_result split: sum.splits if_splits option.splits)
  with Inl assms(1,2) show ?thesis
    by (simp add: get_ping_result health_check_result json_field_def)
qed

theorem log_failure_in_try_is_caught_witness:
  "logger (world_log_fails_in_try disk_full 200) DEBUG ''GET /ping - Health check request'' = None
   \<and> logger (world_log_fails_in_try disk_full 200) DEBUG ''Health check: Ollama reachable''
       = Some disk_full
   \<and> isinstance_Exception disk_full
   \<and> catchable (upstream_outcome default_globals (world_log_fails_in_try disk_full 200))
   \<and> (\<exists>b. snd (get_ping default_globals (world_log_fails_in_try disk_full 200))
              = Inr \<lparr>status = 200, json = b\<rparr>
          \<and> json_field b ''status'' = Some ''healthy'')"
proof -
  have 1: "logger (world_log_fails_in_try disk_full 200) DEBUG
             ''GET /ping - Health check request'' = None"
    by (simp add: world_defs)
  have 2: "\<forall>t. logger (world_log_fails_in_try disk_full 200) WARNING
                 (''Health check: Ollama not ready: '' @ t) = None"
    by (simp add: world_defs)
  have 3: "\<forall>lvl msg e. logger (world_log_fails_in_try disk_full 200) lvl msg = Some e
             \<longrightarrow> isinstance_Exception e"
    by (simp add: world_defs disk_full_def)
  have 4: "catchable (upstream_outcome default_globals (world_log_fails_in_try disk_full 200))"
    by (simp add: world_defs)
  have 5: "logger (world_log_fails_in_try disk_full 200) DEBUG ''Health check: Ollama reachable''
             = Some disk_full"
    by (simp add: world_defs)
  have 6: "isinstance_Exception disk_full"
    by (simp add: disk_full_def)
  from log_failure_in_try_is_caught [OF 1 2 3 4] 1 4 5 6 show ?thesis by simp
qed

subsection \<open>The reach of the \<^verbatim>\<open>except\<close> clause\<close>

text \<open>
  What the \<^verbatim>\<open>try\<close> block raises: the exception of the exchange, of reading the status
  code, or of the block's log call.
\<close>

lemma try_block_raises_iff:
  "snd (try_block g w) = Inl e \<longleftrightarrow>
     client w (probe_request g) = Inl e
   \<or> (\<exists>r. client w (probe_request g) = Inr r \<and> status_code r = Inl e)
   \<or> (upstream_outcome g w = Inr 200
        \<and> logger w DEBUG ''Health check: Ollama reachable'' = Some e)
   \<or> (\<exists>c. c \<noteq> 200 \<and> upstream_outcome g w = Inr c
        \<and> logger w WARNING (''Health check: Ollama degraded (status '' @ py_str c @ '')'')
            = Some e)"
  by (auto simp: try_block_result upstream_outcome_def
      split: sum.splits if_splits option.splits)

text \<open>
  C9, the claim as it stands fails: the clause is \<^verbatim>\<open>except Exception\<close>, and an exception
  that derives from \<^verbatim>\<open>BaseException\<close> only is not caught. Here the task is cancelled while
  it awaits the exchange: \<^verbatim>\<open>asyncio.CancelledError\<close> leaves the handler.
\<close>

theorem cancelled_error_not_caught_counterexample:
  "snd (health_check default_globals (world_raises cancelled)) = Inl cancelled"
  by (simp add: health_check_result try_block_result world_defs cancelled_def)

text \<open>
  C9, amended. Every exception raised inside the \<^verbatim>\<open>try\<close> block that is an instance of
  \<^verbatim>\<open>Exception\<close>, whether it comes from the exchange, from reading the response or from a
  log call of the block, and whatever its class, gives the body with \<^verbatim>\<open>status\<close>
  \<^verbatim>\<open>healthy\<close> and \<^verbatim>\<open>ollama\<close> \<^verbatim>\<open>initializing\<close>, the log calls outside the block returning.
\<close>

theorem except_clause_catches_every_Exception:
  assumes "snd (try_block g w) = Inl e" and "isinstance_Exception e"
    and "logger w DEBUG ''GET /ping - Health check request'' = None"
    and "logger w WARNING (''Health check: Ollama not ready: '' @ exc_str e) = None"
  shows "snd (health_check g w) = Inr [(''status'', ''healthy''), (''ollama'', ''initializing'')]"
  using assms by (simp add: health_check_result)

theorem except_clause_catches_every_Exception_witness:
  "snd (try_block default_globals (world_broken_response disk_full)) = Inl disk_full
   \<and> isinstance_Exception disk_full
   \<and> logger (world_broken_response disk_full) DEBUG ''GET /ping - Health check request'' = None
   \<and> logger (world_broken_response disk_full) WARNING
        (''Health check: Ollama not ready: '' @ exc_str disk_full) = None
   \<and> snd (health_check default_globals (world_broken_response disk_full))
       = Inr [(''status'', ''healthy''), (''ollama'', ''initializing'')]"
proof -
  have 1: "snd (try_block default_globals (world_broken_response disk_full)) = Inl disk_full"
    by (simp add: try_block_result world_defs)
  have 2: "isinstance_Exception disk_full"
    by (simp add: disk_full_def)
  have 3: "logger (world_broken_response disk_full) DEBUG
             ''GET /ping - Health check request'' = None"
    by (simp add: world_defs)
  have 4: "logger (world_broken_response disk_full) WARNING
             (''Health check: Ollama not ready: '' @ exc_str disk_full) = None"
    by (simp add: world_defs)
  from except_clause_catches_every_Exception [OF 1 2 3 4] 1 2 3 4 show ?thesis by simp
qed

subsection \<open>The port variables\<close>

lemma no_underscore_single: "CHR ''_'' \<notin> set s \<Longrightarrow> single_underscores s"
  by (induction s rule: single_underscores.induct) auto

lemma long_numeral_is_literal: "decimal_literal 0 long_numeral"
proof -
  have "strip long_numeral = long_numeral"
    by (rule strip_id) (simp_all add: long_numeral_def is_space_def)
  moreover have "unsigned_part long_numeral = long_numeral"
    by (simp add: unsigned_part_def long_numeral_def)
  moreover have "single_underscores long_numeral"
    by (rule no_underscore_single) (simp add: long_numeral_def)
  moreover have "list_all (\<lambda>c. is_digit c \<or> c = CHR ''_'') long_numeral"
    by (simp add: long_numeral_def list_all_iff is_digit_def)
  moreover have "long_numeral \<noteq> []" "is_digit (hd long_numeral)" "is_digit (last long_numeral)"
    by (simp_all add: long_numeral_def is_digit_def)
  ultimately show ?thesis
    by (simp add: decimal_literal_def digit_groups_def exceeds_limit_def)
qed

text \<open>
  C10, the claim as it stands fails: not every integer is accepted. The text of 5000
  digits 1 is the numeral of an integer, and \<^verbatim>\<open>int\<close> converts it when the interpreter has
  no limit on digits; under the limit of 4300 digits, which is the default, \<^verbatim>\<open>int\<close>
  raises \<^verbatim>\<open>ValueError\<close> on it and \<^verbatim>\<open>uvicorn.run\<close> is never called.
\<close>

theorem long_port_rejected_counterexample:
  "decimal_literal 0 long_numeral
   \<and> main 4300 (env_ports long_numeral ''80'') = Inl (ValueError long_numeral)"
proof -
  have "py_int 4300 long_numeral = None"
    by (simp only: py_int_rejects_iff long_numeral_rejected not_False_eq_True)
  then have "main 4300 (env_ports long_numeral ''80'') = Inl (ValueError long_numeral)"
    by (simp add: main_def module_init_def os_getenv_def env_ports_def)
  with long_numeral_is_literal show ?thesis by simp
qed

text \<open>
  C10, amended. The two port variables are parsed and not checked against a range. A text
  that is not a decimal literal for \<^verbatim>\<open>int\<close> in either variable makes module initialisation
  raise \<^verbatim>\<open>ValueError\<close>, and \<^verbatim>\<open>uvicorn.run\<close> is never called. The numeral of any integer
  \<open>m\<close> and \<open>n\<close> within the interpreter's limit on digits, zero, negative or above 65535, is
  accepted: the globals hold \<open>m\<close> and \<open>n\<close>, and \<open>m\<close> is handed to \<^verbatim>\<open>uvicorn.run\<close>.
\<close>

theorem ports_parsed_not_range_checked:
  "(env ''PORT_HEALTH'' = Some s \<longrightarrow> \<not> decimal_literal mx s \<longrightarrow>
      module_init mx env = Inl (ValueError s) \<and> main mx env = Inl (ValueError s))
   \<and> (env ''PORT'' = Some s \<longrightarrow> \<not> decimal_literal mx s \<longrightarrow>
      (\<exists>t. module_init mx env = Inl (ValueError t) \<and> main mx env = Inl (ValueError t)))
   \<and> (env ''PORT_HEALTH'' = Some (py_str m) \<longrightarrow> env ''PORT'' = Some (py_str n) \<longrightarrow>
      \<not> exceeds_limit mx (num_digits m) \<longrightarrow> \<not> exceeds_limit mx (num_digits n) \<longrightarrow>
      (\<exists>g. module_init mx env = Inr g \<and> PORT_HEALTH g = m \<and> PORT g = n)
      \<and> main mx env = Inr \<lparr>host = ''0.0.0.0'', port = m\<rparr>)"
proof -
  have 1: "env ''PORT_HEALTH'' = Some s \<longrightarrow> \<not> decimal_literal mx s \<longrightarrow>
      module_init mx env = Inl (ValueError s) \<and> main mx env = Inl (ValueError s)"
    by (simp add: py_int_rejects_iff [symmetric] module_init_def main_def os_getenv_def)
  have 2: "env ''PORT'' = Some s \<longrightarrow> \<not> decimal_literal mx s \<longrightarrow>
      (\<exists>t. module_init mx env = Inl (ValueError t) \<and> main mx env = Inl (ValueError t))"
    by (auto simp: py_int_rejects_iff [symmetric] module_init_def main_def os_getenv_def Let_def
        split: option.splits)
  have 3: "env ''PORT_HEALTH'' = Some (py_str m) \<longrightarrow> env ''PORT'' = Some (py_str n) \<longrightarrow>
      \<not> exceeds_limit mx (num_digits m) \<longrightarrow> \<not> exceeds_limit mx (num_digits n) \<longrightarrow>
      (\<exists>g. module_init mx env = Inr g \<and> PORT_HEALTH g = m \<and> PORT g = n)
      \<and> main mx env = Inr \<lparr>host = ''0.0.0.0'', port = m\<rparr>"
    by (simp add: module_init_def main_def os_getenv_def py_int_py_str)
  from 1 2 3 show ?thesis by (intro conjI)
qed

theorem ports_parsed_not_range_checked_witness:
  "env_ports ''http'' ''80'' ''PORT_HEALTH'' = Some ''http'' \<and> \<not> decimal_literal 4300 ''http''
   \<and> main 4300 (env_ports ''http'' ''80'') = Inl (ValueError ''http'')
   \<and> env_ports ''8080'' separator_80 ''PORT'' = Some separator_80
   \<and> \<not> decimal_literal 4300 separator_80
   \<and> main 4300 (env_ports ''8080'' separator_80) = Inl (ValueError separator_80)
   \<and> py_str 0 = ''0'' \<and> py_str (- 1) = ''-1'' \<and> py_str 70000 = ''70000''
   \<and> \<not> exceeds_limit 4300 (num_digits 0) \<and> \<not> exceeds_limit 4300 (num_digits (- 1))
   \<and> \<not> exceeds_limit 4300 (num_digits 70000)
   \<and> main 4300 (env_ports ''0'' ''-1'') = Inr \<lparr>host = ''0.0.0.0'', port = 0\<rparr>
   \<and> main 4300 (env_ports ''70000'' ''0'') = Inr \<lparr>host = ''0.0.0.0'', port = 70000\<rparr>
   \<and> module_init 4300 (env_ports ''0'' ''-1'')
       = Inr \<lparr>log_level = INFO, PORT_HEALTH = 0, PORT = - 1,
              OLLAMA_URL = ''http://localhost:-1'', client_timeout = 2.0\<rparr>"
proof -
  have s: "py_str 0 = ''0''" "py_str (- 1) = ''-1''" "py_str 70000 = ''70000''"
    by (simp_all add: py_str_def digits_nat.simps digit_char_def)
  have l: "\<not> exceeds_limit 4300 (num_digits 0)" "\<not> exceeds_limit 4300 (num_digits (- 1))"
          "\<not> exceeds_limit 4300 (num_digits 70000)"
    by (simp_all add: exceeds_limit_def num_digits_def digits_nat.simps)
  have r: "\<not> decimal_literal 4300 ''http''" "\<not> decimal_literal 4300 separator_80"
    by (simp_all add: decimal_literal_def strip_def is_space_def unsigned_part_def
        digit_groups_def is_digit_def separator_80_def)
  have i: "py_int 4300 ''8080'' = Some 8080"
    by (simp add: py_int_def strip_def is_space_def parse_unsigned_def is_digit_def
        digit_val_def exceeds_limit_def)
  have e: "env_ports ''http'' ''80'' ''PORT_HEALTH'' = Some ''http''"
          "env_ports ''8080'' separator_80 ''PORT'' = Some separator_80"
          "env_ports ''8080'' separator_80 ''PORT_HEALTH'' = Some ''8080''"
          "env_ports ''0'' ''-1'' ''PORT_HEALTH'' = Some (py_str 0)"
          "env_ports ''0'' ''-1'' ''PORT'' = Some (py_str (- 1))"
          "env_ports ''70000'' ''0'' ''PORT_HEALTH'' = Some (py_str 70000)"
          "env_ports ''70000'' ''0'' ''PORT'' = Some (py_str 0)"
    by (simp_all add: env_ports_def s)
  note t1 = ports_parsed_not_range_checked [of "env_ports ''http'' ''80''" "''http''" 4300 0 0]
  note t2 = ports_parsed_not_range_checked
              [of "env_ports ''8080'' separator_80" separator_80 4300 0 0]
  note t3 = ports_parsed_not_range_checked [of "env_ports ''0'' ''-1''" "''x''" 4300 0 "- 1"]
  note t4 = ports_parsed_not_range_checked [of "env_ports ''70000'' ''0''" "''x''" 4300 70000 0]
  have a: "main 4300 (env_ports ''http'' ''80'') = Inl (ValueError ''http'')"
    using t1 e(1) r(1) by blast
  have b: "main 4300 (env_ports ''8080'' separator_80) = Inl (ValueError separator_80)"
    using t2 e(2,3) r(2) i
    by (auto simp: main_def module_init_def os_getenv_def split: option.splits)
  have c: "main 4300 (env_ports ''0'' ''-1'') = Inr \<lparr>host = ''0.0.0.0'', port = 0\<rparr>"
    using t3 e(4,5) l by blast
  have d: "main 4300 (env_ports ''70000'' ''0'') = Inr \<lparr>host = ''0.0.0.0'', port = 70000\<rparr>"
    using t4 e(6,7) l by blast
  have m: "module_init 4300 (env_ports ''0'' ''-1'')
       = Inr \<lparr>log_level = INFO, PORT_HEALTH = 0, PORT = - 1,
              OLLAMA_URL = ''http://localhost:-1'', client_timeout = 2.0\<rparr>"
    using t3 e(4,5) l
    by (auto simp: module_init_def Let_def os_getenv_def s env_ports_def split: option.splits)
  from a b c d m s l r e(1,2) show ?thesis by simp
qed

end
